theory Spec2Isabelle
  imports Main "HOL-Library.Multiset"
begin

section \<open>Data model of the dropzone controller (src/index.js)\<close>

text \<open>
  DOM nodes are identified by natural numbers; strict equality of two node references
  (\<^verbatim>\<open>===\<close>, \<^verbatim>\<open>indexOf\<close>) is equality of the identifiers.
\<close>

type_synonym node = nat

text \<open>
  The numbers the size test compares: a finite byte count or \<^verbatim>\<open>Infinity\<close>, which
  \<^verbatim>\<open>onDrop\<close> substitutes for a missing \<^verbatim>\<open>maxSize\<close>.
\<close>

datatype jsnum = Num int | Infinity

fun jsnum_le :: "jsnum \<Rightarrow> jsnum \<Rightarrow> bool" where
  "jsnum_le (Num a) (Num b) = (a \<le> b)"
| "jsnum_le (Num a) Infinity = True"
| "jsnum_le Infinity (Num b) = False"
| "jsnum_le Infinity Infinity = True"

record File =
  fname :: string
  ftype :: string
  fsize :: int

text \<open>
  The event object the handlers receive. The handlers mutate it through
  \<^verbatim>\<open>preventDefault\<close>, \<^verbatim>\<open>stopPropagation\<close>, \<^verbatim>\<open>persist\<close> and
  \<^verbatim>\<open>dataTransfer.dropEffect\<close>; in the model every handler returns the event it leaves behind.
  \<open>dataTransfer\<close> is \<open>None\<close> when the event has no \<^verbatim>\<open>dataTransfer\<close> object and holds
  the current \<^verbatim>\<open>dropEffect\<close> otherwise.
\<close>

record event =
  target :: node
  dataWithFiles :: bool
  propagationStopped :: bool
  defaultPrevented :: bool
  persisted :: bool
  dataTransfer :: "string option"
  keyCode :: nat

definition preventDefault :: "event \<Rightarrow> event" where
  "preventDefault evt = evt\<lparr>defaultPrevented := True\<rparr>"

definition stopPropagation :: "event \<Rightarrow> event" where
  "stopPropagation evt = evt\<lparr>propagationStopped := True\<rparr>"

definition persist :: "event \<Rightarrow> event" where
  "persist evt = evt\<lparr>persisted := True\<rparr>"

text \<open>
  Modelled from the spec: the helpers \<^verbatim>\<open>isDragDataWithFiles\<close>, \<^verbatim>\<open>isPropagationStopped\<close>
  and \<^verbatim>\<open>isDefaultPrevented\<close> are imported from \<^verbatim>\<open>./utils\<close>, which is not among the
  sources. Each is a test on the event: whether its drag data contains files, whether
  its propagation has been stopped, whether its default has been prevented.
\<close>

definition isDragDataWithFiles :: "event \<Rightarrow> bool" where
  "isDragDataWithFiles evt = dataWithFiles evt"

definition isPropagationStopped :: "event \<Rightarrow> bool" where
  "isPropagationStopped evt = propagationStopped evt"

definition isDefaultPrevented :: "event \<Rightarrow> bool" where
  "isDefaultPrevented evt = defaultPrevented evt"

text \<open>
  Modelled from the spec: \<^verbatim>\<open>fileMatchSize(file, maxSize, minSize)\<close> is imported from
  \<^verbatim>\<open>./utils\<close>, which is not among the sources. The file's size lies within
  \<open>[minSize, maxSize]\<close>.
\<close>

definition fileMatchSize :: "File \<Rightarrow> jsnum \<Rightarrow> jsnum \<Rightarrow> bool" where
  "fileMatchSize f maxSize minSize =
     (jsnum_le (Num (fsize f)) maxSize \<and> jsnum_le minSize (Num (fsize f)))"

text \<open>
  What the code takes from its surroundings: the DOM (\<^verbatim>\<open>Node.contains\<close>,
  \<^verbatim>\<open>Node.isEqualNode\<close>) and the helpers of \<^verbatim>\<open>./utils\<close> whose results are left open
  (\<^verbatim>\<open>fileAccepted\<close>, \<^verbatim>\<open>isIeOrEdge\<close>).
\<close>

record env =
  contains :: "node \<Rightarrow> node \<Rightarrow> bool"
  isEqualNode :: "node \<Rightarrow> node \<Rightarrow> bool"
  fileAccepted :: "File \<Rightarrow> string list option \<Rightarrow> bool"
  isIeOrEdge :: bool

text \<open>
  Modelled from the spec: \<^verbatim>\<open>allFilesAccepted(files, accept)\<close> is imported from
  \<^verbatim>\<open>./utils\<close>, which is not among the sources. Every file of the list matches the accept
  prop.
\<close>

definition allFilesAccepted :: "env \<Rightarrow> File list \<Rightarrow> string list option \<Rightarrow> bool" where
  "allFilesAccepted e fs acc = list_all (\<lambda>f. fileAccepted e f acc) fs"

text \<open>
  The props of the hook. An optional prop is \<open>None\<close> when it is not given. A user callback is
  modelled by what it does to the event object it is handed; that it was called, and with
  which lists, is recorded in the controller's trace. The promise made from
  \<^verbatim>\<open>getDataTransferItems\<close> (or \<^verbatim>\<open>fromEvent\<close>) is not part of the props: the list it
  resolves to is an argument of the promise's callback.
\<close>

record props =
  accept :: "string list option"
  disabled :: "bool option"
  multiple :: "bool option"
  preventDropOnDocument :: "bool option"
  maxSize :: "jsnum option"
  minSize :: "jsnum option"
  onDrop_prop :: "(File list \<Rightarrow> File list \<Rightarrow> event \<Rightarrow> event) option"
  onDropAccepted_prop :: "(File list \<Rightarrow> event \<Rightarrow> event) option"
  onDropRejected_prop :: "(File list \<Rightarrow> event \<Rightarrow> event) option"
  onDragStart_prop :: "(event \<Rightarrow> event) option"
  onDragEnter_prop :: "(event \<Rightarrow> event) option"
  onDragOver_prop :: "(event \<Rightarrow> event) option"
  onDragLeave_prop :: "(event \<Rightarrow> event) option"
  onClick_prop :: "(event \<Rightarrow> event) option"
  onFocus_prop :: "(event \<Rightarrow> event) option"
  onBlur_prop :: "(event \<Rightarrow> event) option"
  onKeyDown_prop :: "(event \<Rightarrow> event) option"
  onFileDialogCancel_prop :: bool

text \<open>The React state of the hook, \<^verbatim>\<open>createInitialState\<close>.\<close>

record dzstate =
  draggedFiles :: "File list"
  acceptedFiles :: "File list"
  rejectedFiles :: "File list"
  isDragActive :: bool
  isFocused :: bool

definition createInitialState :: dzstate where
  "createInitialState =
     \<lparr>draggedFiles = [], acceptedFiles = [], rejectedFiles = [],
      isDragActive = False, isFocused = False\<rparr>"

text \<open>The hidden file input: its \<^verbatim>\<open>value\<close> and its \<^verbatim>\<open>files\<close>.\<close>

record inputEl =
  ivalue :: string
  ifiles :: "File list"

text \<open>
  Work the handlers hand to the host for later: the callbacks of the two promises and of
  the two timers. The \<^verbatim>\<open>onDrop\<close> continuation closes over the props destructured when
  the event arrived, the file-dialog timer over the presence of the cancel callback.
\<close>

datatype continuation =
    DragEnter_then
  | Drop_then props
  | Open_timeout
  | FileDialogCancel_timeout bool

text \<open>What the controller does to the outside, in the order it does it.\<close>

datatype effect =
    Call_onDrop "File list" "File list"
  | Call_onDropRejected "File list"
  | Call_onDropAccepted "File list"
  | Call_onDragStart
  | Call_onDragEnter
  | Call_onDragOver
  | Call_onDragLeave
  | Call_onClick
  | Call_onFocus
  | Call_onBlur
  | Call_onKeyDown
  | Call_onFileDialogCancel
  | Input_click
  | Promise_then continuation
  | SetTimeout continuation nat

text \<open>
  The controller: the React state and the four refs of \<^verbatim>\<open>useDropzone\<close>, with the trace
  of effects.
\<close>

record ctrl =
  state :: dzstate
  nodeRef :: "node option"
  inputRef :: "inputEl option"
  dragTargetsRef :: "node list"
  isFileDialogActiveRef :: bool
  trace :: "effect list"

definition initial :: ctrl where
  "initial =
     \<lparr>state = createInitialState, nodeRef = None, inputRef = None,
      dragTargetsRef = [], isFileDialogActiveRef = False, trace = []\<rparr>"

definition setState :: "(dzstate \<Rightarrow> dzstate) \<Rightarrow> ctrl \<Rightarrow> ctrl" where
  "setState f c = c\<lparr>state := f (state c)\<rparr>"

definition emit :: "effect \<Rightarrow> ctrl \<Rightarrow> ctrl" where
  "emit x c = c\<lparr>trace := trace c @ [x]\<rparr>"

text \<open>\<^verbatim>\<open>Array.prototype.indexOf\<close>: the first position of the element, or \<open>-1\<close>.\<close>

definition indexOf :: "'a list \<Rightarrow> 'a \<Rightarrow> int" where
  "indexOf xs x =
     (if x \<in> set xs then int (length (takeWhile (\<lambda>y. y \<noteq> x) xs)) else - 1)"

text \<open>\<^verbatim>\<open>if (cb) { cb(evt) }\<close>: a user callback that is given is called on the event.\<close>

definition invoke :: "(event \<Rightarrow> event) option \<Rightarrow> effect \<Rightarrow> event \<times> ctrl \<Rightarrow> event \<times> ctrl" where
  "invoke cb x ec = (case cb of None \<Rightarrow> ec | Some f \<Rightarrow> (f (fst ec), emit x (snd ec)))"

section \<open>The handlers of \<^verbatim>\<open>useDropzone\<close>\<close>

text \<open>\<^verbatim>\<open>open\<close> (lines 38-47).\<close>

definition "open" :: "ctrl \<Rightarrow> ctrl" where
  "open c =
     (let c = c\<lparr>isFileDialogActiveRef := True\<rparr>
      in case inputRef c of
           None \<Rightarrow> c
         | Some i \<Rightarrow> emit Input_click (c\<lparr>inputRef := Some (i\<lparr>ivalue := []\<rparr>)\<rparr>))"

text \<open>
  \<^verbatim>\<open>nodeRef.current && nodeRef.current.contains(el)\<close>, which \<^verbatim>\<open>onDragLeave\<close> writes
  \<^verbatim>\<open>nodeRef.current != null && nodeRef.current.contains(el)\<close>.
\<close>

definition nodeContains :: "env \<Rightarrow> ctrl \<Rightarrow> node \<Rightarrow> bool" where
  "nodeContains e c el = (case nodeRef c of None \<Rightarrow> False | Some n \<Rightarrow> contains e n el)"

text \<open>\<^verbatim>\<open>onDocumentDrop\<close> (lines 52-59).\<close>

definition onDocumentDrop :: "env \<Rightarrow> event \<Rightarrow> ctrl \<Rightarrow> event \<times> ctrl" where
  "onDocumentDrop e evt c =
     (if nodeContains e c (target evt) then (evt, c)
      else (preventDefault evt, c\<lparr>dragTargetsRef := []\<rparr>))"

text \<open>\<^verbatim>\<open>onDragStart\<close> (lines 61-66).\<close>

definition onDragStart :: "props \<Rightarrow> event \<Rightarrow> ctrl \<Rightarrow> event \<times> ctrl" where
  "onDragStart p evt c =
     (let evt = persist evt
      in if onDragStart_prop p \<noteq> None \<and> isDragDataWithFiles evt
         then invoke (onDragStart_prop p) Call_onDragStart (evt, c)
         else (evt, c))"

text \<open>
  \<^verbatim>\<open>onDragEnter\<close> (lines 68-98). The promise's callback is \<open>onDragEnter_then\<close>: it runs
  later, on the event object as it is by then and on the list the promise resolved to.
\<close>

definition onDragEnter :: "props \<Rightarrow> event \<Rightarrow> ctrl \<Rightarrow> event \<times> ctrl" where
  "onDragEnter p evt c =
     (let evt = preventDefault evt;
          c = (if indexOf (dragTargetsRef c) (target evt) = - 1
               then c\<lparr>dragTargetsRef := dragTargetsRef c @ [target evt]\<rparr>
               else c);
          evt = persist evt
      in if isDragDataWithFiles evt
         then invoke (onDragEnter_prop p) Call_onDragEnter
                (evt, emit (Promise_then DragEnter_then) c)
         else (evt, c))"

definition onDragEnter_then :: "event \<Rightarrow> File list \<Rightarrow> ctrl \<Rightarrow> ctrl" where
  "onDragEnter_then evt files c =
     (if isPropagationStopped evt then c
      else setState (\<lambda>s. s\<lparr>draggedFiles := files, isDragActive := True\<rparr>) c)"

text \<open>\<^verbatim>\<open>onDragOver\<close> (lines 100-113).\<close>

definition onDragOver :: "props \<Rightarrow> event \<Rightarrow> ctrl \<Rightarrow> event \<times> ctrl" where
  "onDragOver p evt c =
     (let evt = persist (preventDefault evt);
          evt = (case dataTransfer evt of
                   None \<Rightarrow> evt
                 | Some _ \<Rightarrow> evt\<lparr>dataTransfer := Some ''copy''\<rparr>)
      in if onDragOver_prop p \<noteq> None \<and> isDragDataWithFiles evt
         then invoke (onDragOver_prop p) Call_onDragOver (evt, c)
         else (evt, c))"

text \<open>\<^verbatim>\<open>onDragLeave\<close> (lines 115-137).\<close>

definition onDragLeave :: "env \<Rightarrow> props \<Rightarrow> event \<Rightarrow> ctrl \<Rightarrow> event \<times> ctrl" where
  "onDragLeave e p evt c =
     (let evt = persist (preventDefault evt);
          c = c\<lparr>dragTargetsRef :=
                 filter (\<lambda>el. el \<noteq> target evt \<and> nodeContains e c el)
                   (dragTargetsRef c)\<rparr>
      in if length (dragTargetsRef c) > 0 then (evt, c)
         else
           (let c = setState (\<lambda>s. s\<lparr>isDragActive := False, draggedFiles := []\<rparr>) c
            in if onDragLeave_prop p \<noteq> None \<and> isDragDataWithFiles evt
               then invoke (onDragLeave_prop p) Call_onDragLeave (evt, c)
               else (evt, c)))"

text \<open>
  \<^verbatim>\<open>onDrop\<close> (lines 139-211). The handler itself resets the drag state and, for drag
  data with files, registers the promise's callback \<open>onDrop_then\<close> with the props it
  destructured. The callback classifies the files (the \<^verbatim>\<open>forEach\<close> loop,
  \<open>forEach_file\<close>), reading \<^verbatim>\<open>maxSize\<close> and \<^verbatim>\<open>minSize\<close> from the props current by
  then.
\<close>

definition onDrop :: "props \<Rightarrow> event \<Rightarrow> ctrl \<Rightarrow> event \<times> ctrl" where
  "onDrop p evt c =
     (let evt = persist (preventDefault evt);
          c = c\<lparr>dragTargetsRef := [], isFileDialogActiveRef := False\<rparr>;
          c = setState (\<lambda>s. s\<lparr>isDragActive := False, draggedFiles := []\<rparr>) c
      in if isDragDataWithFiles evt then (evt, emit (Promise_then (Drop_then p)) c)
         else (evt, c))"

definition dropTest :: "env \<Rightarrow> props \<Rightarrow> props \<Rightarrow> File \<Rightarrow> bool" where
  "dropTest e p cur f =
     (fileAccepted e f (accept p) \<and>
      fileMatchSize f
        (case maxSize cur of None \<Rightarrow> Infinity | Some m \<Rightarrow> m)
        (case minSize cur of None \<Rightarrow> Num 0 | Some m \<Rightarrow> m))"

fun forEach_file :: "(File \<Rightarrow> bool) \<Rightarrow> File list \<Rightarrow> File list \<times> File list \<Rightarrow> File list \<times> File list" where
  "forEach_file t [] (accepted, rejected) = (accepted, rejected)"
| "forEach_file t (f # fs) (accepted, rejected) =
     (if t f then forEach_file t fs (accepted @ [f], rejected)
      else forEach_file t fs (accepted, rejected @ [f]))"

text \<open>
  Lines 190-194: \<^verbatim>\<open>rejectedFiles.push(...acceptedFiles.splice(0))\<close> empties the accepted
  list and appends what it held to the rejected list.
\<close>

definition singleMode :: "props \<Rightarrow> File list \<times> File list \<Rightarrow> File list \<times> File list" where
  "singleMode p ar =
     (if \<not> (case multiple p of None \<Rightarrow> True | Some m \<Rightarrow> m) \<and> length (fst ar) > 1
      then ([], snd ar @ fst ar)
      else ar)"

definition onDrop_then :: "env \<Rightarrow> props \<Rightarrow> props \<Rightarrow> event \<Rightarrow> File list \<Rightarrow> ctrl \<Rightarrow> event \<times> ctrl" where
  "onDrop_then e p cur evt fileList c =
     (if isPropagationStopped evt then (evt, c)
      else
        (let (accepted, rejected) = singleMode p (forEach_file (dropTest e p cur) fileList ([], []));
             c = setState (\<lambda>s. s\<lparr>acceptedFiles := accepted, rejectedFiles := rejected\<rparr>) c;
             (evt, c) = invoke (map_option (\<lambda>f. f accepted rejected) (onDrop_prop p))
                          (Call_onDrop accepted rejected) (evt, c);
             (evt, c) = (if length rejected > 0 \<and> onDropRejected_prop p \<noteq> None
                         then invoke (map_option (\<lambda>f. f rejected) (onDropRejected_prop p))
                                (Call_onDropRejected rejected) (evt, c)
                         else (evt, c))
         in if length accepted > 0 \<and> onDropAccepted_prop p \<noteq> None
            then invoke (map_option (\<lambda>f. f accepted) (onDropAccepted_prop p))
                   (Call_onDropAccepted accepted) (evt, c)
            else (evt, c)))"

text \<open>\<^verbatim>\<open>onClick\<close> (lines 213-235).\<close>

definition onClick :: "env \<Rightarrow> props \<Rightarrow> event \<Rightarrow> ctrl \<Rightarrow> event \<times> ctrl" where
  "onClick e p evt c =
     (let (evt, c) = invoke (onClick_prop p) Call_onClick (evt, c)
      in if \<not> isDefaultPrevented evt
         then
           (let evt = stopPropagation evt
            in if isIeOrEdge e then (evt, emit (SetTimeout Open_timeout 0) c)
               else (evt, open c))
         else (evt, c))"

text \<open>\<^verbatim>\<open>onInputElementClick\<close> (lines 237-239).\<close>

definition onInputElementClick :: "event \<Rightarrow> ctrl \<Rightarrow> event \<times> ctrl" where
  "onInputElementClick evt c = (stopPropagation evt, c)"

text \<open>
  \<^verbatim>\<open>onFileDialogCancel\<close> (lines 241-261); \<open>onFileDialogCancel_timeout\<close> is the callback
  of its timer.
\<close>

definition onFileDialogCancel :: "props \<Rightarrow> ctrl \<Rightarrow> ctrl" where
  "onFileDialogCancel p c =
     (if isFileDialogActiveRef c
      then emit (SetTimeout (FileDialogCancel_timeout (onFileDialogCancel_prop p)) 300) c
      else c)"

definition onFileDialogCancel_timeout :: "bool \<Rightarrow> ctrl \<Rightarrow> ctrl" where
  "onFileDialogCancel_timeout cb c =
     (case inputRef c of
        None \<Rightarrow> c
      | Some i \<Rightarrow>
          if length (ifiles i) = 0
          then (let c = c\<lparr>isFileDialogActiveRef := False\<rparr>
                in if cb then emit Call_onFileDialogCancel c else c)
          else c)"

text \<open>\<^verbatim>\<open>onFocus\<close> and \<^verbatim>\<open>onBlur\<close> (lines 263-281).\<close>

definition onFocus :: "props \<Rightarrow> event \<Rightarrow> ctrl \<Rightarrow> event \<times> ctrl" where
  "onFocus p evt c =
     (let (evt, c) = invoke (onFocus_prop p) Call_onFocus (evt, c)
      in if \<not> isDefaultPrevented evt
         then (evt, setState (\<lambda>s. s\<lparr>isFocused := True\<rparr>) c)
         else (evt, c))"

definition onBlur :: "props \<Rightarrow> event \<Rightarrow> ctrl \<Rightarrow> event \<times> ctrl" where
  "onBlur p evt c =
     (let (evt, c) = invoke (onBlur_prop p) Call_onBlur (evt, c)
      in if \<not> isDefaultPrevented evt
         then (evt, setState (\<lambda>s. s\<lparr>isFocused := False\<rparr>) c)
         else (evt, c))"

text \<open>\<^verbatim>\<open>onKeyDown\<close> (lines 283-297).\<close>

definition onKeyDown :: "env \<Rightarrow> props \<Rightarrow> event \<Rightarrow> ctrl \<Rightarrow> event \<times> ctrl" where
  "onKeyDown e p evt c =
     (if (case nodeRef c of None \<Rightarrow> True | Some n \<Rightarrow> \<not> isEqualNode e n (target evt))
      then (evt, c)
      else
        (let (evt, c) = invoke (onKeyDown_prop p) Call_onKeyDown (evt, c)
         in if \<not> isDefaultPrevented evt \<and> (keyCode evt = 32 \<or> keyCode evt = 13)
            then (preventDefault evt, open c)
            else (evt, c)))"

text \<open>
  The effect of lines 303-318: the listeners the hook installs on the document and the
  window when it mounts.
\<close>

datatype listener = Document_dragover | Document_drop | Window_focus

definition useEffect :: "props \<Rightarrow> listener list" where
  "useEffect p =
     (if (case preventDropOnDocument p of None \<Rightarrow> True | Some b \<Rightarrow> b)
      then [Document_dragover, Document_drop] else []) @ [Window_focus]"

section \<open>The props for the root element and the snapshot\<close>

text \<open>The nine handlers of the instance that \<^verbatim>\<open>getRootProps\<close> hands out.\<close>

datatype instHandler =
    H_onKeyDown | H_onFocus | H_onBlur | H_onClick | H_onDragStart
  | H_onDragEnter | H_onDragOver | H_onDragLeave | H_onDrop

text \<open>
  Modelled from the spec: \<^verbatim>\<open>composeEventHandlers\<close> is imported from \<^verbatim>\<open>./utils\<close>, which is
  not among the sources. \<open>JComposed v h\<close> stands for the function
  \<^verbatim>\<open>composeEventHandlers(v, inst.h)\<close>, whatever it does when called. The other values
  found in the objects that \<^verbatim>\<open>getRootProps\<close> takes and returns are primitive values,
  functions of the caller (by an identifier), the handlers of the instance, and the node
  ref.
\<close>

datatype jsval =
    JUndefined
  | JNull
  | JBool bool
  | JNum int
  | JStr string
  | JFun nat
  | JInst instHandler
  | JComposed jsval instHandler
  | JNodeRef

fun truthy :: "jsval \<Rightarrow> bool" where
  "truthy JUndefined = False"
| "truthy JNull = False"
| "truthy (JBool b) = b"
| "truthy (JNum n) = (n \<noteq> 0)"
| "truthy (JStr s) = (s \<noteq> [])"
| "truthy _ = True"

text \<open>
  The argument object of \<^verbatim>\<open>getRootProps\<close>: its \<^verbatim>\<open>refKey\<close>, when given, and its other
  properties.
\<close>

record rootArgs =
  refKey :: "string option"
  given :: "string \<rightharpoonup> jsval"

definition handlerKeys :: "string list" where
  "handlerKeys =
     [''onKeyDown'', ''onFocus'', ''onBlur'', ''onClick'', ''onDragStart'', ''onDragEnter'',
      ''onDragOver'', ''onDragLeave'', ''onDrop'']"

text \<open>Reading a property of the argument object: \<^verbatim>\<open>undefined\<close> when it is absent.\<close>

definition property :: "rootArgs \<Rightarrow> string \<Rightarrow> jsval" where
  "property a k = (case given a k of None \<Rightarrow> JUndefined | Some v \<Rightarrow> v)"

text \<open>\<^verbatim>\<open>...rest\<close>: the properties the destructuring pattern does not name.\<close>

definition rest :: "rootArgs \<Rightarrow> string \<rightharpoonup> jsval" where
  "rest a = given a |` (- set (''refKey'' # handlerKeys))"

text \<open>\<^verbatim>\<open>composeHandler\<close> (lines 320-328).\<close>

definition composeHandler :: "props \<Rightarrow> jsval \<Rightarrow> jsval" where
  "composeHandler p handler = (if disabled p = Some True then JNull else handler)"

text \<open>
  \<^verbatim>\<open>getRootProps\<close> (lines 330-368). The object literal is built key by key, a later key
  replacing an equal earlier one; the spread of \<^verbatim>\<open>rest\<close> comes last.
\<close>

definition rootHandler :: "props \<Rightarrow> rootArgs \<Rightarrow> string \<Rightarrow> instHandler \<Rightarrow> jsval" where
  "rootHandler p a k h =
     composeHandler p (if truthy (property a k) then JComposed (property a k) h else JInst h)"

definition getRootProps :: "props \<Rightarrow> rootArgs \<Rightarrow> string \<rightharpoonup> jsval" where
  "getRootProps p a =
     (Map.empty
        (''onKeyDown'' \<mapsto> rootHandler p a ''onKeyDown'' H_onKeyDown,
         ''onFocus'' \<mapsto> rootHandler p a ''onFocus'' H_onFocus,
         ''onBlur'' \<mapsto> rootHandler p a ''onBlur'' H_onBlur,
         ''onClick'' \<mapsto> rootHandler p a ''onClick'' H_onClick,
         ''onDragStart'' \<mapsto> rootHandler p a ''onDragStart'' H_onDragStart,
         ''onDragEnter'' \<mapsto> rootHandler p a ''onDragEnter'' H_onDragEnter,
         ''onDragOver'' \<mapsto> rootHandler p a ''onDragOver'' H_onDragOver,
         ''onDragLeave'' \<mapsto> rootHandler p a ''onDragLeave'' H_onDragLeave,
         ''onDrop'' \<mapsto> rootHandler p a ''onDrop'' H_onDrop,
         (case refKey a of None \<Rightarrow> ''ref'' | Some k \<Rightarrow> k) \<mapsto> JNodeRef,
         ''tabIndex'' \<mapsto> JNum (if disabled p = Some True then - 1 else 0)))
     ++ rest a"

text \<open>
  The status part of what \<^verbatim>\<open>useDropzone\<close> returns (lines 395-412): the state with the
  two derived flags.
\<close>

record snapshot = dzstate +
  isDragAccept :: bool
  isDragReject :: bool

definition useDropzone :: "env \<Rightarrow> props \<Rightarrow> ctrl \<Rightarrow> snapshot" where
  "useDropzone e p c =
     (let s = state c;
          filesCount = length (draggedFiles s);
          isMultipleAllowed = ((case multiple p of None \<Rightarrow> True | Some m \<Rightarrow> m) \<or> filesCount \<le> 1);
          dragAccept = (filesCount > 0 \<and> allFilesAccepted e (draggedFiles s) (accept p));
          dragReject = (filesCount > 0 \<and> (\<not> dragAccept \<or> \<not> isMultipleAllowed))
      in \<lparr>draggedFiles = draggedFiles s, acceptedFiles = acceptedFiles s,
          rejectedFiles = rejectedFiles s, isDragActive = isDragActive s,
          isFocused = (isFocused s \<and> \<not> disabled p = Some True),
          isDragAccept = dragAccept, isDragReject = dragReject\<rparr>)"

section \<open>Reachable controllers\<close>

text \<open>
  The controller starts as \<open>initial\<close>. React attaches and detaches the two element refs,
  the page changes the input's files, \<^verbatim>\<open>open\<close> is exported and may be called at any time,
  the browser delivers events to the handlers, and a callback handed to a promise or a
  timer runs once it has been registered.
\<close>

inductive reachable :: "ctrl \<Rightarrow> bool" where
  r_initial: "reachable initial"
| r_nodeRef: "reachable c \<Longrightarrow> reachable (c\<lparr>nodeRef := n\<rparr>)"
| r_inputRef: "reachable c \<Longrightarrow> reachable (c\<lparr>inputRef := i\<rparr>)"
| r_open: "reachable c \<Longrightarrow> reachable (open c)"
| r_onDocumentDrop: "reachable c \<Longrightarrow> reachable (snd (onDocumentDrop e evt c))"
| r_onDragStart: "reachable c \<Longrightarrow> reachable (snd (onDragStart p evt c))"
| r_onDragEnter: "reachable c \<Longrightarrow> reachable (snd (onDragEnter p evt c))"
| r_onDragEnter_then:
    "reachable c \<Longrightarrow> Promise_then DragEnter_then \<in> set (trace c) \<Longrightarrow>
     reachable (onDragEnter_then evt files c)"
| r_onDragOver: "reachable c \<Longrightarrow> reachable (snd (onDragOver p evt c))"
| r_onDragLeave: "reachable c \<Longrightarrow> reachable (snd (onDragLeave e p evt c))"
| r_onDrop: "reachable c \<Longrightarrow> reachable (snd (onDrop p evt c))"
| r_onDrop_then:
    "reachable c \<Longrightarrow> Promise_then (Drop_then p) \<in> set (trace c) \<Longrightarrow>
     reachable (snd (onDrop_then e p cur evt fileList c))"
| r_onClick: "reachable c \<Longrightarrow> reachable (snd (onClick e p evt c))"
| r_onInputElementClick: "reachable c \<Longrightarrow> reachable (snd (onInputElementClick evt c))"
| r_onFileDialogCancel: "reachable c \<Longrightarrow> reachable (onFileDialogCancel p c)"
| r_onFileDialogCancel_timeout:
    "reachable c \<Longrightarrow> SetTimeout (FileDialogCancel_timeout cb) 300 \<in> set (trace c) \<Longrightarrow>
     reachable (onFileDialogCancel_timeout cb c)"
| r_onFocus: "reachable c \<Longrightarrow> reachable (snd (onFocus p evt c))"
| r_onBlur: "reachable c \<Longrightarrow> reachable (snd (onBlur p evt c))"
| r_onKeyDown: "reachable c \<Longrightarrow> reachable (snd (onKeyDown e p evt c))"

section \<open>Concrete inputs\<close>

text \<open>
  Inputs on which the model is run: three files, a page whose dropzone node \<open>1\<close> contains
  the nodes \<open>1\<close>, \<open>2\<close> and \<open>3\<close>, an accept test on the file's type, props with nothing
  given and variants of them, a drag event with files on node \<open>2\<close>, a click on node \<open>1\<close>,
  some controllers, and arguments for \<^verbatim>\<open>getRootProps\<close>.
\<close>

definition png_a :: File where
  "png_a = \<lparr>fname = ''a.png'', ftype = ''image/png'', fsize = 100\<rparr>"

definition txt_b :: File where
  "txt_b = \<lparr>fname = ''b.txt'', ftype = ''text/plain'', fsize = 50\<rparr>"

definition png_c :: File where
  "png_c = \<lparr>fname = ''c.png'', ftype = ''image/png'', fsize = 300\<rparr>"

definition page :: env where
  "page =
     \<lparr>contains = (\<lambda>n el. n = 1 \<and> el \<in> {1, 2, 3} \<or> n = el),
      isEqualNode = (\<lambda>n el. n = el),
      fileAccepted = (\<lambda>f a. case a of None \<Rightarrow> True | Some ts \<Rightarrow> ftype f \<in> set ts),
      isIeOrEdge = False\<rparr>"

definition noProps :: props where
  "noProps =
     \<lparr>accept = None, disabled = None, multiple = None, preventDropOnDocument = None,
      maxSize = None, minSize = None, onDrop_prop = None, onDropAccepted_prop = None,
      onDropRejected_prop = None, onDragStart_prop = None, onDragEnter_prop = None,
      onDragOver_prop = None, onDragLeave_prop = None, onClick_prop = None,
      onFocus_prop = None, onBlur_prop = None, onKeyDown_prop = None,
      onFileDialogCancel_prop = False\<rparr>"

definition dragEvent :: event where
  "dragEvent =
     \<lparr>target = 2, dataWithFiles = True, propagationStopped = False,
      defaultPrevented = False, persisted = False, dataTransfer = Some ''none'',
      keyCode = 0\<rparr>"

definition singleProps :: props where
  "singleProps = noProps\<lparr>accept := Some [''image/png''], multiple := Some False\<rparr>"

definition pngProps :: props where
  "pngProps = noProps\<lparr>accept := Some [''image/png''], maxSize := Some (Num 200),
      onDrop_prop := Some (\<lambda>a r evt. evt), onDropRejected_prop := Some (\<lambda>r evt. evt),
      onDropAccepted_prop := Some (\<lambda>a evt. evt)\<rparr>"

definition enteredCtrl :: ctrl where
  "enteredCtrl = initial\<lparr>nodeRef := Some 1, dragTargetsRef := [1, 2]\<rparr>"

definition twiceEntered :: ctrl where
  "twiceEntered =
     snd (onDragEnter noProps (dragEvent\<lparr>target := 3\<rparr>)
       (snd (onDragEnter noProps dragEvent (snd (onDragEnter noProps dragEvent initial)))))"

definition draggingCtrl :: ctrl where
  "draggingCtrl =
     initial\<lparr>state := createInitialState\<lparr>draggedFiles := [png_a, png_c], isDragActive := True\<rparr>\<rparr>"

definition mountedCtrl :: ctrl where
  "mountedCtrl =
     initial\<lparr>nodeRef := Some 1, inputRef := Some \<lparr>ivalue = ''a.png'', ifiles = [png_a]\<rparr>\<rparr>"

definition clickEvent :: event where
  "clickEvent =
     \<lparr>target = 1, dataWithFiles = False, propagationStopped = False,
      defaultPrevented = False, persisted = False, dataTransfer = None, keyCode = 0\<rparr>"

definition disabledProps :: props where
  "disabledProps = noProps\<lparr>disabled := Some True\<rparr>"

definition plainArgs :: rootArgs where
  "plainArgs =
     \<lparr>refKey = None, given = [''onClick'' \<mapsto> JFun 1, ''className'' \<mapsto> JStr ''zone'']\<rparr>"

definition tabArgs :: rootArgs where
  "tabArgs = \<lparr>refKey = None, given = [''tabIndex'' \<mapsto> JNum 5]\<rparr>"

definition refArgs :: rootArgs where
  "refArgs = \<lparr>refKey = Some ''onClick'', given = Map.empty\<rparr>"

lemmas fixture_defs = png_a_def txt_b_def png_c_def page_def noProps_def dragEvent_def
  initial_def createInitialState_def

lemmas model_defs = onDrop_then_def singleMode_def dropTest_def fileMatchSize_def
  isPropagationStopped_def isDragDataWithFiles_def isDefaultPrevented_def
  setState_def emit_def invoke_def preventDefault_def persist_def stopPropagation_def

section \<open>The drop: accepted and rejected files\<close>

lemma forEach_file_filter:
  "forEach_file t fs (a, r) = (a @ filter t fs, r @ filter (\<lambda>f. \<not> t f) fs)"
  by (induction fs arbitrary: a r) simp_all

lemma invoke_state [simp]: "state (snd (invoke cb x ec)) = state (snd ec)"
  by (simp add: invoke_def emit_def split: option.splits)

lemma onDrop_then_state:
  "\<not> isPropagationStopped evt \<Longrightarrow>
   state (snd (onDrop_then e p cur evt fileList c)) =
     (state c)\<lparr>acceptedFiles := fst (singleMode p (forEach_file (dropTest e p cur) fileList ([], []))),
               rejectedFiles := snd (singleMode p (forEach_file (dropTest e p cur) fileList ([], [])))\<rparr>"
  by (simp add: onDrop_then_def split_def Let_def setState_def)

lemma mset_filter_split: "mset (filter t fs) + mset (filter (\<lambda>f. \<not> t f) fs) = mset fs"
  by (induction fs) simp_all

text \<open>
  C1, as amended. When a dropped file list is processed, the accepted and the rejected
  files together are a permutation of the list; a file is accepted only if it matches the
  accept prop and its size lies within \<open>[minSize, maxSize]\<close> (\<^verbatim>\<open>Infinity\<close> and \<open>0\<close> when
  not given); every file that fails this test is rejected, and the failing files keep
  their input order in the rejected list, as the passing files do wherever they end up.
  When \<^verbatim>\<open>multiple\<close> is true (its default) or at most one file passes the test, a file is
  accepted iff it passes, it is rejected otherwise, and both lists keep the order of the
  input. When \<^verbatim>\<open>multiple\<close> is false and more than one file passes, no file is accepted
  and the rejected list is the failing files followed by the passing files.
\<close>

theorem onDrop_partition:
  assumes "\<not> isPropagationStopped evt"
  shows "(let s = state (snd (onDrop_then e p cur evt fileList c));
              t = (\<lambda>f. fileAccepted e f (accept p) \<and>
                        jsnum_le (Num (fsize f)) (case maxSize cur of None \<Rightarrow> Infinity | Some m \<Rightarrow> m) \<and>
                        jsnum_le (case minSize cur of None \<Rightarrow> Num 0 | Some m \<Rightarrow> m) (Num (fsize f)))
          in mset (acceptedFiles s) + mset (rejectedFiles s) = mset fileList \<and>
             (\<forall>f \<in> set (acceptedFiles s). t f) \<and>
             (\<forall>f \<in> set fileList. \<not> t f \<longrightarrow> f \<in> set (rejectedFiles s)) \<and>
             filter (\<lambda>f. \<not> t f) (rejectedFiles s) = filter (\<lambda>f. \<not> t f) fileList \<and>
             filter t (rejectedFiles s) @ acceptedFiles s = filter t fileList \<and>
             ((case multiple p of None \<Rightarrow> True | Some m \<Rightarrow> m) \<or> length (filter t fileList) \<le> 1 \<longrightarrow>
                acceptedFiles s = filter t fileList \<and>
                rejectedFiles s = filter (\<lambda>f. \<not> t f) fileList \<and>
                (\<forall>f \<in> set fileList. (f \<in> set (acceptedFiles s) \<longleftrightarrow> t f) \<and>
                                      (f \<in> set (rejectedFiles s) \<longleftrightarrow> \<not> t f))) \<and>
             (multiple p = Some False \<and> length (filter t fileList) > 1 \<longrightarrow>
                acceptedFiles s = [] \<and>
                rejectedFiles s = filter (\<lambda>f. \<not> t f) fileList @ filter t fileList))"
proof -
  let ?t = "dropTest e p cur"
  have t: "?t = (\<lambda>f. fileAccepted e f (accept p) \<and>
                        jsnum_le (Num (fsize f)) (case maxSize cur of None \<Rightarrow> Infinity | Some m \<Rightarrow> m) \<and>
                        jsnum_le (case minSize cur of None \<Rightarrow> Num 0 | Some m \<Rightarrow> m) (Num (fsize f)))"
    by (rule ext) (simp add: dropTest_def fileMatchSize_def)
  have ff: "filter (\<lambda>f. \<not> ?t f) (filter ?t fileList) = []"
    "filter ?t (filter (\<lambda>f. \<not> ?t f) fileList) = []"
    by simp_all
  have perm: "mset (filter ?t fileList) + mset (filter (\<lambda>f. \<not> ?t f) fileList) = mset fileList"
    by (rule mset_filter_split)
  show ?thesis
  proof (cases "(case multiple p of None \<Rightarrow> True | Some m \<Rightarrow> m) \<or> length (filter ?t fileList) \<le> 1")
    case True
    then have same: "singleMode p (forEach_file ?t fileList ([], [])) =
        (filter ?t fileList, filter (\<lambda>f. \<not> ?t f) fileList)"
      by (auto simp add: singleMode_def forEach_file_filter)
    from True have no: "\<not> (multiple p = Some False \<and> length (filter ?t fileList) > 1)"
      by auto
    show ?thesis
      unfolding Let_def t [symmetric] onDrop_then_state [OF assms] same
      using perm True no by (auto simp add: ff)
  next
    case False
    then have m: "multiple p = Some False" and l: "length (filter ?t fileList) > 1"
      by (auto split: option.splits)
    then have moved: "singleMode p (forEach_file ?t fileList ([], [])) =
        ([], filter (\<lambda>f. \<not> ?t f) fileList @ filter ?t fileList)"
      by (simp add: singleMode_def forEach_file_filter)
    show ?thesis
      unfolding Let_def t [symmetric] onDrop_then_state [OF assms] moved
      using perm False m l by (auto simp add: ff add.commute)
  qed
qed

theorem onDrop_partition_witness:
  "\<not> isPropagationStopped dragEvent \<and>
   acceptedFiles (state (snd (onDrop_then page pngProps pngProps dragEvent [png_a, txt_b, png_c] initial)))
     = [png_a] \<and>
   rejectedFiles (state (snd (onDrop_then page pngProps pngProps dragEvent [png_a, txt_b, png_c] initial)))
     = [txt_b, png_c]"
proof -
  have h: "\<not> isPropagationStopped dragEvent"
    by (simp add: isPropagationStopped_def dragEvent_def)
  have f: "filter (\<lambda>f. fileAccepted page f (accept pngProps) \<and>
                        jsnum_le (Num (fsize f)) (case maxSize pngProps of None \<Rightarrow> Infinity | Some m \<Rightarrow> m) \<and>
                        jsnum_le (case minSize pngProps of None \<Rightarrow> Num 0 | Some m \<Rightarrow> m) (Num (fsize f)))
             [png_a, txt_b, png_c] = [png_a]"
    by (simp add: fixture_defs singleProps_def pngProps_def)
  have g: "filter (\<lambda>f. \<not> (fileAccepted page f (accept pngProps) \<and>
                        jsnum_le (Num (fsize f)) (case maxSize pngProps of None \<Rightarrow> Infinity | Some m \<Rightarrow> m) \<and>
                        jsnum_le (case minSize pngProps of None \<Rightarrow> Num 0 | Some m \<Rightarrow> m) (Num (fsize f))))
             [png_a, txt_b, png_c] = [txt_b, png_c]"
    by (simp add: fixture_defs singleProps_def pngProps_def)
  have m: "multiple pngProps = None"
    by (simp add: pngProps_def noProps_def)
  have "acceptedFiles (state (snd (onDrop_then page pngProps pngProps dragEvent
            [png_a, txt_b, png_c] initial))) = [png_a] \<and>
        rejectedFiles (state (snd (onDrop_then page pngProps pngProps dragEvent
            [png_a, txt_b, png_c] initial))) = [txt_b, png_c]"
    using onDrop_partition [OF h, of page pngProps pngProps "[png_a, txt_b, png_c]" initial]
    unfolding Let_def f g m by simp
  then show ?thesis using h by simp
qed

text \<open>
  C1 as stated fails in single mode: with \<^verbatim>\<open>multiple\<close> false and two files that pass
  the test, \<open>png_a\<close> matches the accept prop and the size range and is not accepted, and
  the rejected list does not keep the order of the input.
\<close>

theorem onDrop_partition_counterexample:
  "\<not> isPropagationStopped dragEvent \<and>
   fileAccepted page png_a (accept singleProps) \<and>
   fileMatchSize png_a Infinity (Num 0) \<and>
   maxSize singleProps = None \<and> minSize singleProps = None \<and>
   png_a \<notin> set (acceptedFiles (state (snd
       (onDrop_then page singleProps singleProps dragEvent [png_a, txt_b, png_c] initial)))) \<and>
   rejectedFiles (state (snd
       (onDrop_then page singleProps singleProps dragEvent [png_a, txt_b, png_c] initial)))
     = [txt_b, png_a, png_c]"
  by (simp add: fixture_defs singleProps_def model_defs)

text \<open>
  C2. When \<^verbatim>\<open>multiple\<close> is false and the loop accepted more than one file, every accepted
  file is moved to the end of the rejected list and the accepted list becomes empty; when
  the loop accepted at most one file, or \<^verbatim>\<open>multiple\<close> is not given (it defaults to true),
  the lists stay as the loop left them.
\<close>

theorem onDrop_single_mode:
  assumes "\<not> isPropagationStopped evt"
  shows "(let (accepted, rejected) = forEach_file (dropTest e p cur) fileList ([], []);
              s = state (snd (onDrop_then e p cur evt fileList c))
          in (multiple p = Some False \<and> length accepted > 1 \<longrightarrow>
                acceptedFiles s = [] \<and> rejectedFiles s = rejected @ accepted) \<and>
             (length accepted \<le> 1 \<longrightarrow>
                acceptedFiles s = accepted \<and> rejectedFiles s = rejected) \<and>
             (multiple p = None \<longrightarrow>
                acceptedFiles s = accepted \<and> rejectedFiles s = rejected))"
  unfolding onDrop_then_state [OF assms]
  by (simp add: singleMode_def split_def Let_def)

theorem onDrop_single_mode_witness:
  "\<not> isPropagationStopped dragEvent \<and> multiple singleProps = Some False \<and>
   forEach_file (dropTest page singleProps singleProps) [png_a, txt_b, png_c] ([], [])
     = ([png_a, png_c], [txt_b]) \<and>
   acceptedFiles (state (snd
       (onDrop_then page singleProps singleProps dragEvent [png_a, txt_b, png_c] initial))) = [] \<and>
   rejectedFiles (state (snd
       (onDrop_then page singleProps singleProps dragEvent [png_a, txt_b, png_c] initial)))
     = [txt_b, png_a, png_c]"
proof -
  have h: "\<not> isPropagationStopped dragEvent"
    by (simp add: isPropagationStopped_def dragEvent_def)
  have m: "multiple singleProps = Some False"
    by (simp add: singleProps_def noProps_def)
  have f: "forEach_file (dropTest page singleProps singleProps) [png_a, txt_b, png_c] ([], [])
     = ([png_a, png_c], [txt_b])"
    by (simp add: fixture_defs singleProps_def dropTest_def fileMatchSize_def)
  show ?thesis
    using h m f
      onDrop_single_mode [OF h, of page singleProps singleProps "[png_a, txt_b, png_c]" initial]
    by (simp add: Let_def del: forEach_file.simps)
qed

section \<open>The drop: the callbacks\<close>



section \<open>Drag enter, drag leave and the document's drop\<close>

text \<open>
  C3. \<^verbatim>\<open>onDragLeave\<close> keeps of the drag-target list the targets other than the event's
  that the dropzone node still contains. The drag state is cleared (\<^verbatim>\<open>isDragActive\<close> false,
  \<^verbatim>\<open>draggedFiles\<close> empty) iff that list is empty; when targets remain, nothing but the
  list changes: the state is as before and no callback is called.
\<close>

theorem onDragLeave_clears:
  "(let c' = snd (onDragLeave e p evt c);
        remaining = filter (\<lambda>el. el \<noteq> target evt \<and>
                       (case nodeRef c of None \<Rightarrow> False | Some n \<Rightarrow> contains e n el))
                      (dragTargetsRef c)
    in dragTargetsRef c' = remaining \<and>
       target evt \<notin> set (dragTargetsRef c') \<and>
       (remaining = [] \<longrightarrow>
          state c' = (state c)\<lparr>isDragActive := False, draggedFiles := []\<rparr>) \<and>
       (remaining \<noteq> [] \<longrightarrow>
          c' = c\<lparr>dragTargetsRef := remaining\<rparr> \<and> state c' = state c \<and> trace c' = trace c))"
  by (auto simp add: onDragLeave_def Let_def nodeContains_def setState_def invoke_def emit_def
      persist_def preventDefault_def split: option.splits)

theorem onDragLeave_clears_witness:
  "dragTargetsRef (snd (onDragLeave page noProps dragEvent enteredCtrl)) = [1] \<and>
   state (snd (onDragLeave page noProps dragEvent enteredCtrl)) = state enteredCtrl \<and>
   trace (snd (onDragLeave page noProps dragEvent enteredCtrl)) = trace enteredCtrl"
proof -
  have r: "filter (\<lambda>el. el \<noteq> target dragEvent \<and>
                       (case nodeRef enteredCtrl of None \<Rightarrow> False | Some n \<Rightarrow> contains page n el))
                      (dragTargetsRef enteredCtrl) = [1]"
    by (simp add: enteredCtrl_def dragEvent_def page_def)
  show ?thesis
    using onDragLeave_clears [where e = page and p = noProps and evt = dragEvent
        and c = enteredCtrl]
    unfolding Let_def r by simp
qed

text \<open>
  C6. On a drag-enter event whose drag data contains files the handler registers the
  promise's callback; when the callback runs on an event whose propagation was not
  stopped, \<^verbatim>\<open>isDragActive\<close> becomes true whatever list the promise resolved to, the
  empty list included.
\<close>

theorem onDragEnter_active:
  assumes "isDragDataWithFiles evt" and "\<not> isPropagationStopped evt'"
  shows "trace (snd (onDragEnter p evt c)) =
           trace c @ [Promise_then DragEnter_then] @
             (if onDragEnter_prop p \<noteq> None then [Call_onDragEnter] else []) \<and>
         state (onDragEnter_then evt' files c') =
           (state c')\<lparr>draggedFiles := files, isDragActive := True\<rparr> \<and>
         isDragActive (state (onDragEnter_then evt' files c')) \<and>
         isDragActive (state (onDragEnter_then evt' [] c'))"
  using assms
  by (simp add: onDragEnter_def onDragEnter_then_def Let_def invoke_def emit_def setState_def
      isDragDataWithFiles_def persist_def preventDefault_def split: option.splits)

theorem onDragEnter_active_witness:
  "isDragDataWithFiles dragEvent \<and> \<not> isPropagationStopped dragEvent \<and>
   trace (snd (onDragEnter noProps dragEvent initial)) = [Promise_then DragEnter_then] \<and>
   isDragActive (state (onDragEnter_then dragEvent []
                   (snd (onDragEnter noProps dragEvent initial)))) \<and>
   draggedFiles (state (onDragEnter_then dragEvent []
                   (snd (onDragEnter noProps dragEvent initial)))) = []"
proof -
  have h1: "isDragDataWithFiles dragEvent"
    by (simp add: isDragDataWithFiles_def dragEvent_def)
  have h2: "\<not> isPropagationStopped dragEvent"
    by (simp add: isPropagationStopped_def dragEvent_def)
  show ?thesis
    using h1 h2 onDragEnter_active [OF h1 h2, where p = noProps and c = initial
        and files = "[]" and c' = "snd (onDragEnter noProps dragEvent initial)"]
    by (simp add: noProps_def initial_def)
qed

text \<open>
  C7. The document's drop listener is installed unless \<^verbatim>\<open>preventDropOnDocument\<close> is
  false. When the drop target is inside the dropzone node the handler leaves the event and
  the controller as they are; otherwise (target outside, or no node attached) it prevents
  the default and empties the drag-target list, changing nothing else.
\<close>

theorem onDocumentDrop_frame:
  "(let inside = (case nodeRef c of None \<Rightarrow> False | Some n \<Rightarrow> contains e n (target evt))
    in (Document_drop \<in> set (useEffect p) \<longleftrightarrow> preventDropOnDocument p \<noteq> Some False) \<and>
       (inside \<longrightarrow> onDocumentDrop e evt c = (evt, c)) \<and>
       (\<not> inside \<longrightarrow>
          onDocumentDrop e evt c = (preventDefault evt, c\<lparr>dragTargetsRef := []\<rparr>) \<and>
          dragTargetsRef (snd (onDocumentDrop e evt c)) = [] \<and>
          isDefaultPrevented (fst (onDocumentDrop e evt c))))"
  by (auto simp add: onDocumentDrop_def nodeContains_def useEffect_def Let_def
      isDefaultPrevented_def preventDefault_def split: option.splits)

theorem onDocumentDrop_frame_witness:
  "Document_drop \<in> set (useEffect noProps) \<and>
   onDocumentDrop page dragEvent enteredCtrl = (dragEvent, enteredCtrl) \<and>
   onDocumentDrop page (dragEvent\<lparr>target := 7\<rparr>) enteredCtrl =
     (preventDefault (dragEvent\<lparr>target := 7\<rparr>), enteredCtrl\<lparr>dragTargetsRef := []\<rparr>) \<and>
   onDocumentDrop page dragEvent (enteredCtrl\<lparr>nodeRef := None\<rparr>) =
     (preventDefault dragEvent, enteredCtrl\<lparr>nodeRef := None, dragTargetsRef := []\<rparr>)"
proof -
  have i: "(case nodeRef enteredCtrl of None \<Rightarrow> False
            | Some n \<Rightarrow> contains page n (target dragEvent))"
    by (simp add: enteredCtrl_def dragEvent_def page_def)
  have o: "\<not> (case nodeRef enteredCtrl of None \<Rightarrow> False
            | Some n \<Rightarrow> contains page n (target (dragEvent\<lparr>target := 7\<rparr>)))"
    by (simp add: enteredCtrl_def dragEvent_def page_def)
  have n: "\<not> (case nodeRef (enteredCtrl\<lparr>nodeRef := None\<rparr>) of None \<Rightarrow> False
            | Some n \<Rightarrow> contains page n (target dragEvent))"
    by simp
  have d: "preventDropOnDocument noProps \<noteq> Some False"
    by (simp add: noProps_def)
  show ?thesis
    using onDocumentDrop_frame [where c = enteredCtrl and e = page and evt = dragEvent
          and p = noProps]
      onDocumentDrop_frame [where c = enteredCtrl and e = page
          and evt = "dragEvent\<lparr>target := 7\<rparr>" and p = noProps]
      onDocumentDrop_frame [where c = "enteredCtrl\<lparr>nodeRef := None\<rparr>" and e = page
          and evt = dragEvent and p = noProps]
    unfolding Let_def using i o n d by simp
qed

section \<open>The drag-target list has no duplicates\<close>

lemma indexOf_absent: "indexOf xs x = - 1 \<longleftrightarrow> x \<notin> set xs"
  by (simp add: indexOf_def)

lemma dragTargets_invoke [simp]:
  "dragTargetsRef (snd (invoke cb x ec)) = dragTargetsRef (snd ec)"
  by (simp add: invoke_def emit_def split: option.splits)

lemma dragTargets_open [simp]: "dragTargetsRef (open c) = dragTargetsRef c"
  by (simp add: open_def Let_def emit_def split: option.splits)

lemma dragTargets_onDragEnter:
  "dragTargetsRef (snd (onDragEnter p evt c)) =
     (if target evt \<in> set (dragTargetsRef c) then dragTargetsRef c
      else dragTargetsRef c @ [target evt])"
  by (simp add: onDragEnter_def Let_def indexOf_absent emit_def persist_def preventDefault_def)

lemma dragTargets_onDragLeave:
  "dragTargetsRef (snd (onDragLeave e p evt c)) =
     filter (\<lambda>el. el \<noteq> target evt \<and> nodeContains e c el) (dragTargetsRef c)"
  by (simp add: onDragLeave_def Let_def setState_def persist_def preventDefault_def)

lemma dragTargets_onDrop: "dragTargetsRef (snd (onDrop p evt c)) = []"
  by (simp add: onDrop_def Let_def setState_def emit_def)

lemma dragTargets_onDocumentDrop:
  "dragTargetsRef (snd (onDocumentDrop e evt c)) = [] \<or>
   dragTargetsRef (snd (onDocumentDrop e evt c)) = dragTargetsRef c"
  by (simp add: onDocumentDrop_def)

lemma dragTargets_onDrop_then [simp]:
  "dragTargetsRef (snd (onDrop_then e p cur evt fileList c)) = dragTargetsRef c"
  by (simp add: onDrop_then_def Let_def split_def setState_def)

lemma dragTargets_other [simp]:
  "dragTargetsRef (snd (onDragStart p evt c)) = dragTargetsRef c"
  "dragTargetsRef (onDragEnter_then evt files c) = dragTargetsRef c"
  "dragTargetsRef (snd (onDragOver p evt c)) = dragTargetsRef c"
  "dragTargetsRef (snd (onClick e p evt c)) = dragTargetsRef c"
  "dragTargetsRef (snd (onInputElementClick evt c)) = dragTargetsRef c"
  "dragTargetsRef (onFileDialogCancel p c) = dragTargetsRef c"
  "dragTargetsRef (onFileDialogCancel_timeout cb c) = dragTargetsRef c"
  "dragTargetsRef (snd (onFocus p evt c)) = dragTargetsRef c"
  "dragTargetsRef (snd (onBlur p evt c)) = dragTargetsRef c"
  "dragTargetsRef (snd (onKeyDown e p evt c)) = dragTargetsRef c"
  by (simp_all add: onDragStart_def onDragEnter_then_def onDragOver_def onClick_def
      onInputElementClick_def onFileDialogCancel_def onFileDialogCancel_timeout_def
      onFocus_def onBlur_def onKeyDown_def Let_def split_def setState_def emit_def
      split: option.splits)

lemma reachable_distinct: "reachable c \<Longrightarrow> distinct (dragTargetsRef c)"
proof (induction rule: reachable.induct)
  case r_initial
  show ?case by (simp add: initial_def)
next
  case (r_onDocumentDrop c e evt)
  then show ?case using dragTargets_onDocumentDrop [of e evt c] by auto
next
  case (r_onDragEnter c p evt)
  then show ?case by (simp add: dragTargets_onDragEnter)
next
  case (r_onDragLeave c e p evt)
  then show ?case by (simp add: dragTargets_onDragLeave)
next
  case (r_onDrop c p evt)
  show ?case by (simp add: dragTargets_onDrop)
qed simp_all

text \<open>
  C4. In every reachable controller the drag-target list has no duplicates.
  \<^verbatim>\<open>onDragEnter\<close> appends the event's target only when the list does not hold it, and
  the lists that \<^verbatim>\<open>onDragEnter\<close>, \<^verbatim>\<open>onDragLeave\<close>, \<^verbatim>\<open>onDrop\<close> and
  \<^verbatim>\<open>onDocumentDrop\<close> leave behind are again free of duplicates.
\<close>

theorem dragTargets_distinct:
  assumes "reachable c"
  shows "distinct (dragTargetsRef c) \<and>
         dragTargetsRef (snd (onDragEnter p evt c)) =
           (if target evt \<in> set (dragTargetsRef c) then dragTargetsRef c
            else dragTargetsRef c @ [target evt]) \<and>
         distinct (dragTargetsRef (snd (onDragEnter p evt c))) \<and>
         distinct (dragTargetsRef (snd (onDragLeave e p evt c))) \<and>
         distinct (dragTargetsRef (snd (onDrop p evt c))) \<and>
         distinct (dragTargetsRef (snd (onDocumentDrop e evt c)))"
  using reachable_distinct [OF assms]
    reachable_distinct [OF r_onDragEnter [OF assms]]
    reachable_distinct [OF r_onDragLeave [OF assms]]
    reachable_distinct [OF r_onDrop [OF assms]]
    reachable_distinct [OF r_onDocumentDrop [OF assms]]
  by (simp add: dragTargets_onDragEnter)

theorem dragTargets_distinct_witness:
  "reachable twiceEntered \<and> dragTargetsRef twiceEntered = [2, 3] \<and>
   distinct (dragTargetsRef twiceEntered)"
proof -
  have r: "reachable twiceEntered"
    unfolding twiceEntered_def by (intro r_onDragEnter r_initial)
  have d: "dragTargetsRef twiceEntered = [2, 3]"
    by (simp add: twiceEntered_def dragTargets_onDragEnter dragEvent_def initial_def)
  show ?thesis
    using r d dragTargets_distinct [OF r, where p = noProps and evt = dragEvent and e = page]
    by simp
qed

section \<open>The snapshot\<close>

text \<open>
  C5. In the snapshot \<^verbatim>\<open>isDragAccept\<close> is true iff there are dragged files and every one
  of them matches the accept prop; \<^verbatim>\<open>isDragReject\<close> is true iff there are dragged files
  and either not all of them are accepted or \<^verbatim>\<open>multiple\<close> is false and more than one
  file is dragged. So with \<^verbatim>\<open>multiple\<close> false and several dragged files, all accepted,
  both flags are true.
\<close>

theorem snapshot_flags:
  "(let s = useDropzone e p c;
        fs = draggedFiles (state c);
        allAccepted = (\<forall>f \<in> set fs. fileAccepted e f (accept p))
    in draggedFiles s = fs \<and>
       (isDragAccept s \<longleftrightarrow> fs \<noteq> [] \<and> allAccepted) \<and>
       (isDragReject s \<longleftrightarrow>
          fs \<noteq> [] \<and> (\<not> allAccepted \<or> (multiple p = Some False \<and> length fs > 1))) \<and>
       (multiple p = Some False \<and> length fs > 1 \<and> allAccepted \<longrightarrow>
          isDragAccept s \<and> isDragReject s))"
  by (cases "multiple p")
     (auto simp add: useDropzone_def Let_def allFilesAccepted_def list_all_iff)

theorem snapshot_flags_witness:
  "multiple singleProps = Some False \<and> draggedFiles (state draggingCtrl) = [png_a, png_c] \<and>
   fileAccepted page png_a (accept singleProps) \<and> fileAccepted page png_c (accept singleProps) \<and>
   isDragAccept (useDropzone page singleProps draggingCtrl) \<and>
   isDragReject (useDropzone page singleProps draggingCtrl)"
proof -
  have m: "multiple singleProps = Some False"
    by (simp add: singleProps_def noProps_def)
  have d: "draggedFiles (state draggingCtrl) = [png_a, png_c]"
    by (simp add: draggingCtrl_def createInitialState_def initial_def)
  have a: "fileAccepted page png_a (accept singleProps)" "fileAccepted page png_c (accept singleProps)"
    by (simp_all add: fixture_defs singleProps_def)
  show ?thesis
    using m a snapshot_flags [where e = page and p = singleProps and c = draggingCtrl]
    unfolding Let_def d by simp
qed

section \<open>The click\<close>

text \<open>
  C8, as amended. \<^verbatim>\<open>onClick\<close> first calls the user's \<^verbatim>\<open>onClick\<close> when it is given. If
  the event's default is prevented after that, nothing else happens: the controller is as
  the callback left it. Otherwise the propagation is stopped and the dialog is opened: at
  once by \<^verbatim>\<open>open\<close>, which marks the dialog active and, when the input element is mounted,
  clears its value and clicks it (with no input mounted nothing is cleared or clicked), or,
  on IE and Edge, through \<^verbatim>\<open>setTimeout(open, 0)\<close>, which leaves the refs and the state
  as they are for now.
\<close>

theorem onClick_opens:
  "(let evt1 = (case onClick_prop p of None \<Rightarrow> evt | Some f \<Rightarrow> f evt);
        c1 = (case onClick_prop p of None \<Rightarrow> c | Some f \<Rightarrow> emit Call_onClick c);
        evt2 = fst (onClick e p evt c);
        c2 = snd (onClick e p evt c)
    in (isDefaultPrevented evt1 \<longrightarrow> evt2 = evt1 \<and> c2 = c1) \<and>
       (\<not> isDefaultPrevented evt1 \<and> \<not> isIeOrEdge e \<longrightarrow>
          evt2 = stopPropagation evt1 \<and> c2 = open c1 \<and>
          isFileDialogActiveRef c2 \<and> state c2 = state c \<and>
          (case inputRef c of
             None \<Rightarrow> inputRef c2 = None \<and> trace c2 = trace c1
           | Some i \<Rightarrow> inputRef c2 = Some (i\<lparr>ivalue := []\<rparr>) \<and>
                       trace c2 = trace c1 @ [Input_click])) \<and>
       (\<not> isDefaultPrevented evt1 \<and> isIeOrEdge e \<longrightarrow>
          evt2 = stopPropagation evt1 \<and> c2 = emit (SetTimeout Open_timeout 0) c1 \<and>
          trace c2 = trace c1 @ [SetTimeout Open_timeout 0] \<and>
          isFileDialogActiveRef c2 = isFileDialogActiveRef c \<and>
          inputRef c2 = inputRef c \<and> state c2 = state c))"
  by (auto simp add: onClick_def Let_def invoke_def open_def emit_def split: option.splits)

theorem onClick_opens_witness:
  "\<not> isDefaultPrevented clickEvent \<and> \<not> isIeOrEdge page \<and>
   isFileDialogActiveRef (snd (onClick page noProps clickEvent mountedCtrl)) \<and>
   inputRef (snd (onClick page noProps clickEvent mountedCtrl)) =
     Some \<lparr>ivalue = [], ifiles = [png_a]\<rparr> \<and>
   trace (snd (onClick page noProps clickEvent mountedCtrl)) = [Input_click] \<and>
   isDefaultPrevented (preventDefault clickEvent) \<and>
   snd (onClick page (noProps\<lparr>onClick_prop := Some preventDefault\<rparr>) clickEvent mountedCtrl) =
     emit Call_onClick mountedCtrl \<and>
   snd (onClick (page\<lparr>isIeOrEdge := True\<rparr>) noProps clickEvent mountedCtrl) =
     emit (SetTimeout Open_timeout 0) mountedCtrl"
proof -
  have n: "onClick_prop noProps = None" by (simp add: noProps_def)
  have h: "\<not> isDefaultPrevented clickEvent"
    by (simp add: isDefaultPrevented_def clickEvent_def)
  have h': "isDefaultPrevented (preventDefault clickEvent)"
    by (simp add: isDefaultPrevented_def preventDefault_def)
  have ie: "\<not> isIeOrEdge page" by (simp add: page_def)
  have i: "inputRef mountedCtrl = Some \<lparr>ivalue = ''a.png'', ifiles = [png_a]\<rparr>"
    "trace mountedCtrl = []"
    by (simp_all add: mountedCtrl_def initial_def)
  show ?thesis
    using h h' ie
      onClick_opens [where e = page and p = noProps and evt = clickEvent and c = mountedCtrl]
      onClick_opens [where e = page and p = "noProps\<lparr>onClick_prop := Some preventDefault\<rparr>"
        and evt = clickEvent and c = mountedCtrl]
      onClick_opens [where e = "page\<lparr>isIeOrEdge := True\<rparr>" and p = noProps
        and evt = clickEvent and c = mountedCtrl]
    unfolding Let_def
    by (simp add: n i) (simp add: open_def emit_def mountedCtrl_def initial_def)
qed

text \<open>
  C8 as stated fails while no input element is mounted: the default is not prevented, the
  dialog is marked active, and no input is cleared or clicked.
\<close>

theorem onClick_opens_counterexample:
  "\<not> isDefaultPrevented clickEvent \<and> \<not> isIeOrEdge page \<and> inputRef initial = None \<and>
   isFileDialogActiveRef (snd (onClick page noProps clickEvent initial)) \<and>
   inputRef (snd (onClick page noProps clickEvent initial)) = None \<and>
   Input_click \<notin> set (trace (snd (onClick page noProps clickEvent initial)))"
  by (simp add: onClick_def open_def invoke_def emit_def Let_def isDefaultPrevented_def
      clickEvent_def page_def noProps_def initial_def)

section \<open>The root props of a disabled dropzone\<close>

lemma rest_handlerKeys: "k \<in> set handlerKeys \<Longrightarrow> rest a k = None"
  by (simp add: rest_def restrict_map_def)

lemma rest_tabIndex: "rest a ''tabIndex'' = given a ''tabIndex''"
  by (simp add: rest_def restrict_map_def handlerKeys_def)

lemma getRootProps_handlers:
  fixes a and refKey'
  defines "refKey' \<equiv> (case refKey a of None \<Rightarrow> ''ref'' | Some r \<Rightarrow> r)"
  shows
  "getRootProps p a ''onKeyDown'' =
     Some (if refKey' = ''onKeyDown'' then JNodeRef else rootHandler p a ''onKeyDown'' H_onKeyDown)"
  "getRootProps p a ''onFocus'' =
     Some (if refKey' = ''onFocus'' then JNodeRef else rootHandler p a ''onFocus'' H_onFocus)"
  "getRootProps p a ''onBlur'' =
     Some (if refKey' = ''onBlur'' then JNodeRef else rootHandler p a ''onBlur'' H_onBlur)"
  "getRootProps p a ''onClick'' =
     Some (if refKey' = ''onClick'' then JNodeRef else rootHandler p a ''onClick'' H_onClick)"
  "getRootProps p a ''onDragStart'' =
     Some (if refKey' = ''onDragStart'' then JNodeRef else rootHandler p a ''onDragStart'' H_onDragStart)"
  "getRootProps p a ''onDragEnter'' =
     Some (if refKey' = ''onDragEnter'' then JNodeRef else rootHandler p a ''onDragEnter'' H_onDragEnter)"
  "getRootProps p a ''onDragOver'' =
     Some (if refKey' = ''onDragOver'' then JNodeRef else rootHandler p a ''onDragOver'' H_onDragOver)"
  "getRootProps p a ''onDragLeave'' =
     Some (if refKey' = ''onDragLeave'' then JNodeRef else rootHandler p a ''onDragLeave'' H_onDragLeave)"
  "getRootProps p a ''onDrop'' =
     Some (if refKey' = ''onDrop'' then JNodeRef else rootHandler p a ''onDrop'' H_onDrop)"
  unfolding refKey'_def
  by (simp_all add: getRootProps_def map_add_def rest_handlerKeys handlerKeys_def)

lemma getRootProps_tabIndex:
  "getRootProps p a ''tabIndex'' =
     (case given a ''tabIndex'' of
        None \<Rightarrow> Some (JNum (if disabled p = Some True then - 1 else 0))
      | Some v \<Rightarrow> Some v)"
  by (simp add: getRootProps_def map_add_def rest_tabIndex split: option.splits)

text \<open>
  C10, as amended. When \<^verbatim>\<open>disabled\<close> is true, \<^verbatim>\<open>getRootProps\<close> returns \<^verbatim>\<open>null\<close> for
  every one of its nine event handlers except the one, if any, that \<^verbatim>\<open>refKey\<close> names,
  which holds the node ref; it returns a \<^verbatim>\<open>tabIndex\<close> of \<open>-1\<close> (where it is \<open>0\<close>
  otherwise) unless the caller's argument has a \<^verbatim>\<open>tabIndex\<close> of its own, which is then
  returned; and the returned \<^verbatim>\<open>isFocused\<close> is false whatever the focus state.
\<close>

theorem getRootProps_disabled:
  "(disabled p = Some True \<longrightarrow>
      (\<forall>k \<in> set handlerKeys.
         getRootProps p a k =
           Some (if (case refKey a of None \<Rightarrow> ''ref'' | Some r \<Rightarrow> r) = k then JNodeRef else JNull)) \<and>
      ((case refKey a of None \<Rightarrow> ''ref'' | Some r \<Rightarrow> r) \<notin> set handlerKeys \<longrightarrow>
         (\<forall>k \<in> set handlerKeys. getRootProps p a k = Some JNull)) \<and>
      getRootProps p a ''tabIndex'' =
        (case given a ''tabIndex'' of None \<Rightarrow> Some (JNum (- 1)) | Some v \<Rightarrow> Some v) \<and>
      (given a ''tabIndex'' = None \<longrightarrow> getRootProps p a ''tabIndex'' = Some (JNum (- 1))) \<and>
      \<not> isFocused (useDropzone e p c)) \<and>
   (disabled p \<noteq> Some True \<and> given a ''tabIndex'' = None \<longrightarrow>
      getRootProps p a ''tabIndex'' = Some (JNum 0))"
proof -
  have handlers: "\<forall>k \<in> set handlerKeys.
         getRootProps p a k =
           Some (if (case refKey a of None \<Rightarrow> ''ref'' | Some r \<Rightarrow> r) = k then JNodeRef else JNull)"
    if "disabled p = Some True"
    using that
    by (simp add: handlerKeys_def getRootProps_handlers rootHandler_def composeHandler_def)
  have plain: "\<forall>k \<in> set handlerKeys. getRootProps p a k = Some JNull"
    if "disabled p = Some True"
      and "(case refKey a of None \<Rightarrow> ''ref'' | Some r \<Rightarrow> r) \<notin> set handlerKeys"
    using handlers [OF that(1)] that(2) by auto
  have focus: "\<not> isFocused (useDropzone e p c)" if "disabled p = Some True"
    using that by (simp add: useDropzone_def Let_def)
  show ?thesis
    using handlers plain focus by (simp add: getRootProps_tabIndex split: option.splits)
qed

theorem getRootProps_disabled_witness:
  "disabled disabledProps = Some True \<and>
   getRootProps disabledProps plainArgs ''onClick'' = Some JNull \<and>
   getRootProps disabledProps plainArgs ''onDrop'' = Some JNull \<and>
   getRootProps disabledProps plainArgs ''tabIndex'' = Some (JNum (- 1)) \<and>
   getRootProps disabledProps refArgs ''onClick'' = Some JNodeRef \<and>
   getRootProps disabledProps refArgs ''onDrop'' = Some JNull \<and>
   getRootProps disabledProps tabArgs ''tabIndex'' = Some (JNum 5) \<and>
   \<not> isFocused (useDropzone page disabledProps
         (initial\<lparr>state := createInitialState\<lparr>isFocused := True\<rparr>\<rparr>))"
proof -
  have d: "disabled disabledProps = Some True"
    by (simp add: disabledProps_def noProps_def)
  have r: "(case refKey plainArgs of None \<Rightarrow> ''ref'' | Some r \<Rightarrow> r) \<notin> set handlerKeys"
    by (simp add: plainArgs_def handlerKeys_def)
  have t: "given plainArgs ''tabIndex'' = None"
    by (simp add: plainArgs_def)
  have k: "''onClick'' \<in> set handlerKeys" "''onDrop'' \<in> set handlerKeys"
    by (simp_all add: handlerKeys_def)
  have r': "(case refKey refArgs of None \<Rightarrow> ''ref'' | Some r \<Rightarrow> r) = ''onClick''"
    by (simp add: refArgs_def)
  have t': "given tabArgs ''tabIndex'' = Some (JNum 5)"
    by (simp add: tabArgs_def)
  have ne: "''onClick'' \<noteq> ''onDrop''" by simp
  have plain: "getRootProps disabledProps plainArgs ''onClick'' = Some JNull \<and>
      getRootProps disabledProps plainArgs ''onDrop'' = Some JNull \<and>
      getRootProps disabledProps plainArgs ''tabIndex'' = Some (JNum (- 1)) \<and>
      \<not> isFocused (useDropzone page disabledProps
         (initial\<lparr>state := createInitialState\<lparr>isFocused := True\<rparr>\<rparr>))"
    using d r t k
      getRootProps_disabled [where p = disabledProps and a = plainArgs and e = page
        and c = "initial\<lparr>state := createInitialState\<lparr>isFocused := True\<rparr>\<rparr>"]
    by blast
  have named: "getRootProps disabledProps refArgs ''onClick'' = Some JNodeRef \<and>
      getRootProps disabledProps refArgs ''onDrop'' = Some JNull"
    using d k ne
      getRootProps_disabled [where p = disabledProps and a = refArgs and e = page
        and c = initial]
    unfolding r' by auto
  have own: "getRootProps disabledProps tabArgs ''tabIndex'' = Some (JNum 5)"
    using d getRootProps_disabled [where p = disabledProps and a = tabArgs and e = page
        and c = initial]
    unfolding t' by simp
  show ?thesis using d plain named own by simp
qed

text \<open>
  C10 as stated fails: the caller's own props are spread last, so a \<^verbatim>\<open>tabIndex\<close> passed
  to \<^verbatim>\<open>getRootProps\<close> replaces the \<open>-1\<close>; and the computed key \<^verbatim>\<open>[refKey]\<close> follows
  the handlers, so a \<^verbatim>\<open>refKey\<close> of \<^verbatim>\<open>onClick\<close> puts the node ref where the handler was.
\<close>

theorem getRootProps_disabled_counterexample:
  "disabled disabledProps = Some True \<and>
   getRootProps disabledProps tabArgs ''tabIndex'' = Some (JNum 5) \<and>
   getRootProps disabledProps tabArgs ''tabIndex'' \<noteq> Some (JNum (- 1)) \<and>
   getRootProps disabledProps refArgs ''onClick'' = Some JNodeRef \<and>
   getRootProps disabledProps refArgs ''onClick'' \<noteq> Some JNull"
  by (simp add: disabledProps_def noProps_def tabArgs_def refArgs_def getRootProps_def
      map_add_def rest_def restrict_map_def handlerKeys_def)

end
